theory Spec2Isabelle
  imports Complex_Main "HOL-Library.AList" "HOL-Library.Sublist" "HOL-Library.Log_Nat"
begin

section \<open>Python values\<close>

text \<open>
  The analysis that travels through the reconciliation path is a string-keyed Python dict
  whose values come from \<^verbatim>\<open>json.loads\<close> or from \<^verbatim>\<open>float(...)\<close>: \<^verbatim>\<open>None\<close>, bools,
  unbounded ints, binary64 floats, strings, lists and dicts (\<^verbatim>\<open>decimal.Decimal\<close> never
  occurs there). A dict is an association list in insertion order with distinct keys.
\<close>

datatype py_error =
  TypeError | AttributeError | KeyError | IndexError | ValueError | OverflowError

text \<open>
  A float is a finite binary64 value, given by the rational number it is, an infinity or
  NaN (\<^verbatim>\<open>json.loads\<close> accepts \<^verbatim>\<open>Infinity\<close> and \<^verbatim>\<open>NaN\<close>, and sums overflow). The
  sign of zero is not kept: no operation of the controller distinguishes the two zeros.
\<close>

datatype pyfloat = Fin rat | PosInf | NegInf | NaN

datatype pyval =
    PyNone
  | PyBool bool
  | PyInt int
  | PyFloat pyfloat
  | PyStr string
  | PyList "pyval list"
  | PyDict "(string \<times> pyval) list"

type_synonym pydict = "(string \<times> pyval) list"

subsection \<open>Binary64 arithmetic\<close>

definition pow2 :: "int \<Rightarrow> rat" where
  "pow2 e = (if 0 \<le> e then 2 ^ nat e else 1 / 2 ^ nat (- e))"

text \<open>\<open>floor_log2 a\<close> is the \<open>e\<close> with \<open>pow2 e \<le> a < pow2 (e + 1)\<close>, for a positive \<open>a\<close>.\<close>

definition floor_log2 :: "rat \<Rightarrow> int" where
  "floor_log2 a =
     (case quotient_of a of (n, d) \<Rightarrow>
        let k = bitlen n - bitlen d
        in if pow2 k \<le> a then k else k - 1)"

definition round_half_even :: "rat \<Rightarrow> int" where
  "round_half_even x =
     (let f = \<lfloor>x\<rfloor>; r = x - of_int f
      in if r < 1 / 2 then f else if 1 / 2 < r then f + 1 else if even f then f else f + 1)"

text \<open>
  The binary64 value nearest to a rational number, ties to even. With \<open>e\<close> the binary
  exponent of the magnitude, at least \<open>-1022\<close> (below that the numbers are subnormal), the
  magnitude is rounded to a multiple \<open>n\<close> of the unit in the last place \<open>pow2 (e - 52)\<close>, so
  to 53 significant bits. The result is an infinity when it reaches \<open>pow2 1024\<close>: when
  \<open>e\<close> exceeds 1023, or \<open>e\<close> is 1023 and \<open>n\<close> has been rounded up to \<open>2 ^ 53\<close>.
\<close>

definition round64 :: "rat \<Rightarrow> pyfloat" where
  "round64 q =
     (if q = 0 then Fin 0
      else let a = \<bar>q\<bar>;
               e = max (floor_log2 a) (- 1022);
               ulp = pow2 (e - 52);
               n = round_half_even (a / ulp)
           in if 1023 < e \<or> (e = 1023 \<and> 2 ^ 53 \<le> n)
              then (if 0 < q then PosInf else NegInf)
              else Fin (if 0 < q then of_int n * ulp else - (of_int n * ulp)))"

fun fneg :: "pyfloat \<Rightarrow> pyfloat" where
  "fneg (Fin q) = Fin (- q)"
| "fneg PosInf = NegInf"
| "fneg NegInf = PosInf"
| "fneg NaN = NaN"

fun fabs :: "pyfloat \<Rightarrow> pyfloat" where
  "fabs (Fin q) = Fin \<bar>q\<bar>"
| "fabs PosInf = PosInf"
| "fabs NegInf = PosInf"
| "fabs NaN = NaN"

fun fadd :: "pyfloat \<Rightarrow> pyfloat \<Rightarrow> pyfloat" where
  "fadd (Fin a) (Fin b) = round64 (a + b)"
| "fadd NaN y = NaN"
| "fadd x NaN = NaN"
| "fadd PosInf NegInf = NaN"
| "fadd NegInf PosInf = NaN"
| "fadd PosInf y = PosInf"
| "fadd NegInf y = NegInf"
| "fadd x PosInf = PosInf"
| "fadd x NegInf = NegInf"

definition fsub :: "pyfloat \<Rightarrow> pyfloat \<Rightarrow> pyfloat" where
  "fsub x y = fadd x (fneg y)"

text \<open>\<open>x < y\<close> on floats: false as soon as one side is NaN.\<close>

fun flt :: "pyfloat \<Rightarrow> pyfloat \<Rightarrow> bool" where
  "flt (Fin a) (Fin b) = (a < b)"
| "flt NaN y = False"
| "flt x NaN = False"
| "flt PosInf y = False"
| "flt x NegInf = False"
| "flt NegInf y = True"
| "flt x PosInf = True"

text \<open>
  An int that takes part in float arithmetic, or is formatted with \<^verbatim>\<open>.2f\<close>, is
  converted to the nearest float; Python raises OverflowError ("int too large to convert
  to float") instead of giving an infinity.
\<close>

definition int_to_float :: "int \<Rightarrow> py_error + pyfloat" where
  "int_to_float i = (case round64 (of_int i) of Fin q \<Rightarrow> Inr (Fin q) | _ \<Rightarrow> Inl OverflowError)"

text \<open>A bool is an int in arithmetic.\<close>

fun as_int :: "pyval \<Rightarrow> int option" where
  "as_int (PyBool b) = Some (if b then 1 else 0)"
| "as_int (PyInt i) = Some i"
| "as_int _ = None"

text \<open>
  Arithmetic on two numbers: exact on two ints, rounded to binary64 as soon as one
  operand is a float, TypeError when an operand is no number.
\<close>

definition py_arith ::
  "(int \<Rightarrow> int \<Rightarrow> int) \<Rightarrow> (pyfloat \<Rightarrow> pyfloat \<Rightarrow> pyfloat) \<Rightarrow> pyval \<Rightarrow> pyval \<Rightarrow> py_error + pyval" where
  "py_arith fi ff a b =
     (case (a, b) of
        (PyFloat x, PyFloat y) \<Rightarrow> Inr (PyFloat (ff x y))
      | (PyFloat x, _) \<Rightarrow>
          (case as_int b of
             None \<Rightarrow> Inl TypeError
           | Some j \<Rightarrow> (case int_to_float j of Inl e \<Rightarrow> Inl e | Inr y \<Rightarrow> Inr (PyFloat (ff x y))))
      | (_, PyFloat y) \<Rightarrow>
          (case as_int a of
             None \<Rightarrow> Inl TypeError
           | Some i \<Rightarrow> (case int_to_float i of Inl e \<Rightarrow> Inl e | Inr x \<Rightarrow> Inr (PyFloat (ff x y))))
      | _ \<Rightarrow>
          (case (as_int a, as_int b) of
             (Some i, Some j) \<Rightarrow> Inr (PyInt (fi i j))
           | _ \<Rightarrow> Inl TypeError))"

text \<open>\<^verbatim>\<open>a + b\<close>: two strings or two lists are concatenated, numbers are added.\<close>

definition py_add :: "pyval \<Rightarrow> pyval \<Rightarrow> py_error + pyval" where
  "py_add a b =
     (case (a, b) of
        (PyStr s, PyStr t) \<Rightarrow> Inr (PyStr (s @ t))
      | (PyList xs, PyList ys) \<Rightarrow> Inr (PyList (xs @ ys))
      | _ \<Rightarrow> py_arith (+) fadd a b)"

text \<open>\<^verbatim>\<open>a - b\<close>: defined on numbers only.\<close>

definition py_sub :: "pyval \<Rightarrow> pyval \<Rightarrow> py_error + pyval" where
  "py_sub a b = py_arith (-) fsub a b"

text \<open>
  \<^verbatim>\<open>abs(x) < c\<close> for a float constant \<open>c\<close> and a number \<open>x\<close> (an int is compared with a
  float by value, without conversion); false for what is no number.
\<close>

definition int_below :: "int \<Rightarrow> pyfloat \<Rightarrow> bool" where
  "int_below i c = (case c of Fin q \<Rightarrow> of_int i < q | PosInf \<Rightarrow> True | _ \<Rightarrow> False)"

fun abs_below :: "pyval \<Rightarrow> pyfloat \<Rightarrow> bool" where
  "abs_below (PyFloat x) c = flt (fabs x) c"
| "abs_below (PyInt i) c = int_below \<bar>i\<bar> c"
| "abs_below (PyBool b) c = int_below (if b then 1 else 0) c"
| "abs_below _ c = False"

text \<open>
  The exception, if any, of formatting a value with \<^verbatim>\<open>{x:.2f}\<close>: an int is converted
  to a float first, a float is always printed, a string has no format code \<^verbatim>\<open>f\<close>.
\<close>

fun format_2f_error :: "pyval \<Rightarrow> py_error option" where
  "format_2f_error (PyFloat x) = None"
| "format_2f_error (PyInt i) = (case int_to_float i of Inl e \<Rightarrow> Some e | Inr x \<Rightarrow> None)"
| "format_2f_error (PyBool b) = None"
| "format_2f_error (PyStr s) = Some ValueError"
| "format_2f_error _ = Some TypeError"

subsection \<open>Dicts, truth values, iteration\<close>

text \<open>\<^verbatim>\<open>d.get(k, default)\<close> on a dict.\<close>

definition dict_get :: "pydict \<Rightarrow> string \<Rightarrow> pyval \<Rightarrow> pyval" where
  "dict_get d k dflt = (case map_of d k of None \<Rightarrow> dflt | Some v \<Rightarrow> v)"

text \<open>\<^verbatim>\<open>x.get(k, default)\<close> on any value: only a dict has \<^verbatim>\<open>get\<close>.\<close>

fun py_get :: "pyval \<Rightarrow> string \<Rightarrow> pyval \<Rightarrow> py_error + pyval" where
  "py_get (PyDict d) k dflt = Inr (dict_get d k dflt)"
| "py_get _ k dflt = Inl AttributeError"

text \<open>Truth value of an object, as \<^verbatim>\<open>if x:\<close> tests it.\<close>

fun truthy :: "pyval \<Rightarrow> bool" where
  "truthy PyNone = False"
| "truthy (PyBool b) = b"
| "truthy (PyInt i) = (i \<noteq> 0)"
| "truthy (PyFloat x) = (x \<noteq> Fin 0)"
| "truthy (PyStr s) = (s \<noteq> [])"
| "truthy (PyList xs) = (xs \<noteq> [])"
| "truthy (PyDict d) = (d \<noteq> [])"

text \<open>
  What \<^verbatim>\<open>list.extend(x)\<close> iterates over: the elements of a list, the characters of
  a string, the keys of a dict; anything else is not iterable.
\<close>

fun py_iter :: "pyval \<Rightarrow> py_error + pyval list" where
  "py_iter (PyList xs) = Inr xs"
| "py_iter (PyStr s) = Inr (map (\<lambda>c. PyStr [c]) s)"
| "py_iter (PyDict d) = Inr (map (\<lambda>kv. PyStr (fst kv)) d)"
| "py_iter _ = Inl TypeError"

section \<open>Reconciliation controller\<close>

text \<open>
  The oracle is the language-model call followed by the extraction of the JSON text and
  \<^verbatim>\<open>json.loads\<close>. Its four outcomes are the four ways the source leaves the
  \<^verbatim>\<open>try\<close> block: the call (or reading the response) raises, the response is empty,
  \<^verbatim>\<open>json.loads\<close> raises JSONDecodeError, or it returns a value.
\<close>

datatype oracle_reply = Raises | NoContent | BadJSON | Parsed pyval

record request =
  req_text :: string
  req_invoice_total :: pyval
  req_calculated_total :: pyval
  req_difference :: pyval

text \<open>\<^verbatim>\<open>initial_analysis.get('cost_validation', {}).get(k, 0.0)\<close>\<close>

definition cv_get :: "pydict \<Rightarrow> string \<Rightarrow> py_error + pyval" where
  "cv_get a k = py_get (dict_get a ''cost_validation'' (PyDict [])) k (PyFloat (Fin 0))"

text \<open>
  \<^verbatim>\<open>sum(item.get('cost_usd', 0.0) for item in items)\<close>, the accumulator starting at
  the int 0. An item that is no dict has no \<^verbatim>\<open>get\<close>; a cost that is no number
  cannot be added.
\<close>

fun sum_costs :: "pyval \<Rightarrow> pyval list \<Rightarrow> py_error + pyval" where
  "sum_costs acc [] = Inr acc"
| "sum_costs acc (item # items) =
     (case py_get item ''cost_usd'' (PyFloat (Fin 0)) of
        Inl e \<Rightarrow> Inl e
      | Inr v \<Rightarrow> (case py_add acc v of
                    Inl e \<Rightarrow> Inl e
                  | Inr acc' \<Rightarrow> sum_costs acc' items))"

text \<open>
  \<^verbatim>\<open>initial_analysis['cost_validation'][k] = v\<close>: None when the statement raises
  (no such key, or the value is no dict).
\<close>

definition cv_set :: "pydict \<Rightarrow> string \<Rightarrow> pyval \<Rightarrow> pydict option" where
  "cv_set a k v =
     (case map_of a ''cost_validation'' of
        Some (PyDict cv) \<Rightarrow> Some (AList.update ''cost_validation'' (PyDict (AList.update k v cv)) a)
      | _ \<Rightarrow> None)"

text \<open>
  The body of the \<^verbatim>\<open>try\<close> block after \<^verbatim>\<open>json.loads\<close> has returned
  \<open>missing_data\<close>. The analysis is one mutable object: every handler returns it, so what
  an exception leaves behind is the analysis as mutated up to the statement that raised.
  The two log lines that end the block only format values that are already stored.
\<close>

definition merge_missing :: "pydict \<Rightarrow> pyval \<Rightarrow> pyval \<Rightarrow> pydict" where
  "merge_missing a invoice_total missing_data =
     (case py_get missing_data ''missing_items'' (PyList []) of
        Inl e \<Rightarrow> a
      | Inr missing_items \<Rightarrow>
          if \<not> truthy missing_items then a
          else (case map_of a ''service_line_items'' of
                  Some (PyList ledger) \<Rightarrow>
                    (case py_iter missing_items of
                       Inl e \<Rightarrow> a
                     | Inr new_items \<Rightarrow>
                         let a1 = AList.update ''service_line_items'' (PyList (ledger @ new_items)) a in
                         (case sum_costs (PyInt 0) (ledger @ new_items) of
                            Inl e \<Rightarrow> a1
                          | Inr new_calculated_total \<Rightarrow>
                              (case cv_set a1 ''calculated_total'' new_calculated_total of
                                 None \<Rightarrow> a1
                               | Some a2 \<Rightarrow>
                                   (case py_sub invoice_total new_calculated_total of
                                      Inl e \<Rightarrow> a2
                                    | Inr new_difference \<Rightarrow>
                                        (case cv_set a2 ''difference'' new_difference of
                                           None \<Rightarrow> a2
                                         | Some a3 \<Rightarrow>
                                             (case cv_set a3 ''validation_passed''
                                                     (PyBool (abs_below new_difference (round64 1))) of
                                                None \<Rightarrow> a3
                                              | Some a4 \<Rightarrow> a4))))))
                | _ \<Rightarrow> a))"

text \<open>
  \<^verbatim>\<open>reconcile_missing_costs\<close>. \<open>client\<close> says whether the client was initialised.
  The result is the returned analysis with the list of requests sent to the oracle;
  \<open>Inl\<close> is an exception that leaves the function: the statements before the
  \<^verbatim>\<open>try\<close> are not guarded, and they subtract the totals, compare with the float
  \<^verbatim>\<open>0.01\<close> and format the difference and the two totals with \<^verbatim>\<open>.2f\<close> for the log
  line and the prompt.
\<close>

definition reconcile_missing_costs ::
  "bool \<Rightarrow> (request \<Rightarrow> oracle_reply) \<Rightarrow> string \<Rightarrow> pydict \<Rightarrow> py_error + (pydict \<times> request list)" where
  "reconcile_missing_costs client oracle pdf_text initial_analysis =
     (if \<not> client then Inr (initial_analysis, [])
      else case cv_get initial_analysis ''calculated_total'' of
        Inl e \<Rightarrow> Inl e
      | Inr calculated_total \<Rightarrow>
      (case cv_get initial_analysis ''invoice_total'' of
        Inl e \<Rightarrow> Inl e
      | Inr invoice_total \<Rightarrow>
      (case py_sub invoice_total calculated_total of
        Inl e \<Rightarrow> Inl e
      | Inr difference \<Rightarrow>
          if abs_below difference (round64 (1 / 100))
          then (case format_2f_error difference of
                  Some e \<Rightarrow> Inl e
                | None \<Rightarrow> Inr (initial_analysis, []))
          else
            (case format_2f_error difference of
               Some e \<Rightarrow> Inl e
             | None \<Rightarrow>
            (case format_2f_error invoice_total of
               Some e \<Rightarrow> Inl e
             | None \<Rightarrow>
            (case format_2f_error calculated_total of
               Some e \<Rightarrow> Inl e
             | None \<Rightarrow>
            let req = \<lparr>req_text = pdf_text, req_invoice_total = invoice_total,
                       req_calculated_total = calculated_total, req_difference = difference\<rparr>
            in Inr (case oracle req of
                      Raises \<Rightarrow> initial_analysis
                    | NoContent \<Rightarrow> initial_analysis
                    | BadJSON \<Rightarrow> initial_analysis
                    | Parsed missing_data \<Rightarrow> merge_missing initial_analysis invoice_total missing_data,
                    [req])))))))"

text \<open>The ledger of an analysis: the list under \<^verbatim>\<open>service_line_items\<close>.\<close>

definition ledger_of :: "pydict \<Rightarrow> pyval list option" where
  "ledger_of a = (case map_of a ''service_line_items'' of Some (PyList xs) \<Rightarrow> Some xs | _ \<Rightarrow> None)"

subsection \<open>Sample reconciliations\<close>

text \<open>
  One ledger item costing 10.00 against an invoice total of 20.00, and an oracle reply
  with one candidate costing 5.00. Every float below is a binary64 value.
\<close>

definition ex_item :: pyval where
  "ex_item = PyDict [(''service_name'', PyStr ''EC2''), (''cost_usd'', PyFloat (Fin 10))]"

definition ex_analysis :: pydict where
  "ex_analysis =
     [(''service_line_items'', PyList [ex_item]),
      (''cost_validation'',
         PyDict [(''calculated_total'', PyFloat (Fin 10)), (''invoice_total'', PyFloat (Fin 20))])]"

definition ex_reply :: pyval where
  "ex_reply = PyDict [(''missing_items'', PyList [PyDict [(''cost_usd'', PyFloat (Fin 5))]])]"

definition ex_request :: request where
  "ex_request = \<lparr>req_text = ''USD 5'', req_invoice_total = PyFloat (Fin 20),
                  req_calculated_total = PyFloat (Fin 10), req_difference = PyFloat (Fin 10)\<rparr>"

definition ex_reconciled :: pydict where
  "ex_reconciled =
     [(''service_line_items'', PyList [ex_item, PyDict [(''cost_usd'', PyFloat (Fin 5))]]),
      (''cost_validation'',
         PyDict [(''calculated_total'', PyFloat (Fin 15)), (''invoice_total'', PyFloat (Fin 20)),
                 (''difference'', PyFloat (Fin 5)), (''validation_passed'', PyBool False)])]"



text \<open>A reply whose candidate carries its cost as a string.\<close>

definition ex_bad_reply :: pyval where
  "ex_bad_reply =
     PyDict [(''missing_items'',
        PyList [PyDict [(''service_name'', PyStr ''Tax''), (''cost_usd'', PyStr ''45.60'')]])]"

definition ex_polluted :: pydict where
  "ex_polluted =
     [(''service_line_items'',
         PyList [ex_item, PyDict [(''service_name'', PyStr ''Tax''), (''cost_usd'', PyStr ''45.60'')]]),
      (''cost_validation'',
         PyDict [(''calculated_total'', PyFloat (Fin 10)), (''invoice_total'', PyFloat (Fin 20))])]"





text \<open>
  Totals given by the float literals \<^verbatim>\<open>0.0101\<close> and \<^verbatim>\<open>0.0001\<close>: their float
  difference is the float \<^verbatim>\<open>0.01\<close> itself.
\<close>

definition ex_edge :: pydict where
  "ex_edge =
     [(''service_line_items'', PyList [ex_item]),
      (''cost_validation'',
         PyDict [(''calculated_total'', PyFloat (round64 (1 / 10000))),
                 (''invoice_total'', PyFloat (round64 (101 / 10000)))])]"

section \<open>Properties of the reconciliation controller\<close>

lemma round64_0: "round64 0 = Fin 0"
  by (simp add: round64_def)

lemma round64_1: "round64 1 = Fin 1"
  by code_simp

lemma round64_5: "round64 5 = Fin 5"
  by code_simp

lemma round64_10: "round64 10 = Fin 10"
  by code_simp

lemma round64_15: "round64 15 = Fin 15"
  by code_simp

lemma round64_half: "round64 (1 / 2) = Fin (1 / 2)"
  by code_simp

text \<open>The float that the literal \<^verbatim>\<open>0.01\<close> denotes.\<close>

lemma round64_cent: "round64 (1 / 100) = Fin (5764607523034235 / 576460752303423488)"
  by code_simp

lemmas round64_eval =
  round64_0 round64_1 round64_5 round64_10 round64_15 round64_half round64_cent

lemmas reconcile_eval =
  reconcile_missing_costs_def cv_get_def dict_get_def py_sub_def py_add_def py_arith_def fsub_def
  int_to_float_def int_below_def merge_missing_def cv_set_def ledger_of_def Let_def round64_eval

lemmas ex_defs =
  ex_analysis_def ex_reply_def ex_item_def ex_reconciled_def ex_request_def

lemma ex_run:
  "reconcile_missing_costs True (\<lambda>r. Parsed ex_reply) ''USD 5'' ex_analysis
     = Inr (ex_reconciled, [ex_request])"
  by (simp add: reconcile_eval ex_defs)

lemma ledger_of_update_other:
  "k \<noteq> ''service_line_items'' \<Longrightarrow> ledger_of (AList.update k v a) = ledger_of a"
  by (simp add: ledger_of_def update_conv')

lemma ledger_of_update_same:
  "ledger_of (AList.update ''service_line_items'' (PyList xs) a) = Some xs"
  by (simp add: ledger_of_def update_conv')

lemma ledger_of_cv_set:
  "cv_set a k v = Some a' \<Longrightarrow> ledger_of a' = ledger_of a"
  by (auto simp: cv_set_def ledger_of_update_other split: option.splits pyval.splits)

lemma ledger_of_merge_missing:
  assumes "ledger_of a = Some xs"
  shows "\<exists>ys. ledger_of (merge_missing a tot md) = Some (xs @ ys)"
proof -
  from assms have m: "map_of a ''service_line_items'' = Some (PyList xs)"
    by (auto simp: ledger_of_def split: option.splits pyval.splits)
  show ?thesis
    unfolding merge_missing_def Let_def
    using assms m
    by (auto split: sum.splits option.splits pyval.splits
             simp: ledger_of_update_same dest!: ledger_of_cv_set)
qed

text \<open>The ways in which the controller returns.\<close>

lemma reconcile_cases:
  assumes "reconcile_missing_costs client oracle pdf_text a = Inr (a', reqs)"
  shows "(a' = a \<and> reqs = [])
       \<or> (\<exists>calc tot d. cv_get a ''calculated_total'' = Inr calc
              \<and> cv_get a ''invoice_total'' = Inr tot \<and> py_sub tot calc = Inr d
              \<and> reqs = [\<lparr>req_text = pdf_text, req_invoice_total = tot,
                          req_calculated_total = calc, req_difference = d\<rparr>]
              \<and> a' = (case oracle \<lparr>req_text = pdf_text, req_invoice_total = tot,
                                    req_calculated_total = calc, req_difference = d\<rparr> of
                         Parsed md \<Rightarrow> merge_missing a tot md | _ \<Rightarrow> a))"
proof (cases client)
  case False
  with assms show ?thesis by (simp add: reconcile_missing_costs_def)
next
  case True
  show ?thesis
  proof (cases "cv_get a ''calculated_total''")
    case (Inl e)
    with True assms show ?thesis by (simp add: reconcile_missing_costs_def)
  next
    case calc: (Inr calc)
    show ?thesis
    proof (cases "cv_get a ''invoice_total''")
      case (Inl e)
      with True calc assms show ?thesis by (simp add: reconcile_missing_costs_def)
    next
      case tot: (Inr tot)
      show ?thesis
      proof (cases "py_sub tot calc")
        case (Inl e)
        with True calc tot assms show ?thesis by (simp add: reconcile_missing_costs_def)
      next
        case d: (Inr d)
        let ?req = "\<lparr>req_text = pdf_text, req_invoice_total = tot,
                       req_calculated_total = calc, req_difference = d\<rparr>"
        from True calc tot d assms have
          "(a' = a \<and> reqs = [])
           \<or> (reqs = [?req] \<and> a' = (case oracle ?req of
                                      Parsed md \<Rightarrow> merge_missing a tot md | _ \<Rightarrow> a))"
          by (simp add: reconcile_missing_costs_def Let_def
                   split: if_splits option.splits oracle_reply.splits)
        with calc tot d show ?thesis by blast
      qed
    qed
  qed
qed

text \<open>
  C3. Whatever the oracle does, a reconciliation pass that returns leaves the ledger it
  was given as a prefix of the ledger it returns: the old items keep their positions and
  their contents, and the length can only grow.
\<close>

theorem reconcile_appends_only:
  assumes "reconcile_missing_costs client oracle pdf_text a = Inr (a', reqs)"
      and "ledger_of a = Some xs"
  shows "\<exists>ys. ledger_of a' = Some (xs @ ys)"
proof -
  from reconcile_cases[OF assms(1)] obtain tot r where
    "a' = a \<or> a' = (case r of Parsed md \<Rightarrow> merge_missing a tot md | _ \<Rightarrow> a)"
    by blast
  then have "a' = a \<or> (\<exists>md. a' = merge_missing a tot md)"
    by (cases r) auto
  with assms(2) ledger_of_merge_missing[OF assms(2)] show ?thesis by auto
qed

theorem reconcile_appends_only_witness:
  "reconcile_missing_costs True (\<lambda>r. Parsed ex_reply) ''USD 5'' ex_analysis
     = Inr (ex_reconciled, [ex_request])
   \<and> ledger_of ex_analysis = Some [ex_item]
   \<and> (\<exists>ys. ledger_of ex_reconciled = Some ([ex_item] @ ys))"
proof -
  have l: "ledger_of ex_analysis = Some [ex_item]"
    by (simp add: ledger_of_def ex_analysis_def)
  from reconcile_appends_only[OF ex_run l] ex_run l show ?thesis by simp
qed


lemma reconcile_oracle_failure_unchanged:
  assumes "\<And>r. oracle r = Raises \<or> oracle r = NoContent \<or> oracle r = BadJSON"
      and "reconcile_missing_costs client oracle pdf_text a = Inr (a', reqs)"
  shows "a' = a"
proof -
  have "(case oracle r of Parsed md \<Rightarrow> merge_missing a t md | _ \<Rightarrow> a) = a" for r t
    using assms(1)[of r] by (auto split: oracle_reply.splits)
  with reconcile_cases[OF assms(2)] show ?thesis by auto
qed

text \<open>
  C4, at a reply that parses as JSON but does not conform: the candidate's cost is the
  string "45.60". \<^verbatim>\<open>extend\<close> has already appended the candidate when the sum raises
  TypeError; the handler returns the analysis with the ledger one item longer and the
  totals as they were.
\<close>

theorem reconcile_nonconforming_reply:
  "reconcile_missing_costs True (\<lambda>r. Parsed ex_bad_reply) ''USD 5'' ex_analysis
     = Inr (ex_polluted, [ex_request])
   \<and> ledger_of ex_analysis = Some [ex_item]
   \<and> ledger_of ex_polluted
       = Some [ex_item, PyDict [(''service_name'', PyStr ''Tax''), (''cost_usd'', PyStr ''45.60'')]]
   \<and> cv_get ex_polluted ''calculated_total'' = cv_get ex_analysis ''calculated_total''"
  by (simp add: reconcile_eval ex_defs ex_bad_reply_def ex_polluted_def)






lemma ex_edge_difference:
  "fsub (round64 (101 / 10000)) (round64 (1 / 10000)) = Fin (5764607523034235 / 576460752303423488)"
  by code_simp


text \<open>
  The difference of the floats \<^verbatim>\<open>0.0101\<close> and \<^verbatim>\<open>0.0001\<close> rounds to the float
  \<^verbatim>\<open>0.01\<close>, which is not below itself: the controller calls the oracle.
\<close>

lemma reconcile_edge:
  "\<exists>a' req. reconcile_missing_costs True (\<lambda>r. Raises) ''USD 5'' ex_edge = Inr (a', [req])"
  by (simp add: reconcile_missing_costs_def cv_get_def dict_get_def py_sub_def py_arith_def
        ex_edge_def ex_edge_difference round64_cent Let_def)





end
